theory Spec2Isabelle
  imports Complex_Main "HOL-Library.Word" "HOL-Library.Multiset"
begin

section \<open>Numbers and configuration\<close>

text \<open>
  The service computes with JavaScript numbers. They are modelled as real numbers:
  the rounding error of double arithmetic, the infinities and NaN are outside the
  model. Time values (\<open>Date.getTime()\<close>) are integers, milliseconds since the epoch.
\<close>

definition Math_log10 :: "real \<Rightarrow> real" where
  "Math_log10 x = log 10 x"

definition Math_exp :: "real \<Rightarrow> real" where
  "Math_exp x = exp x"

definition Math_min :: "real \<Rightarrow> real \<Rightarrow> real" where
  "Math_min a b = min a b"

definition Math_max :: "real \<Rightarrow> real \<Rightarrow> real" where
  "Math_max a b = max a b"

text \<open>\<open>Math.round\<close> rounds to the nearest integer, a tie towards plus infinity.\<close>

definition Math_round :: "real \<Rightarrow> real" where
  "Math_round x = of_int \<lfloor>x + 1 / 2\<rfloor>"

text \<open>\<open>ScoringWeights\<close> of github.types.ts; its fields \<open>stars\<close>, \<open>forks\<close> and
  \<open>recency\<close> carry the prefix \<open>weight_\<close>.\<close>

record ScoringWeights =
  weight_stars :: real
  weight_forks :: real
  weight_recency :: real

text \<open>The private fields of the class \<open>ScoringService\<close>, read from the configuration by
  its constructor.\<close>

record ScoringService =
  weights :: ScoringWeights
  recencyDecayDays :: real

text \<open>The configuration's defaults: weights 0.4, 0.3, 0.3 when the environment sets none,
  and a decay of 365 days.\<close>

definition default_weights :: ScoringWeights where
  "default_weights = \<lparr>weight_stars = 4 / 10, weight_forks = 3 / 10, weight_recency = 3 / 10\<rparr>"

definition new_ScoringService :: "ScoringWeights \<Rightarrow> ScoringService" where
  "new_ScoringService w = \<lparr>weights = w, recencyDecayDays = 365\<rparr>"

definition scoringService :: ScoringService where
  "scoringService = new_ScoringService default_weights"

section \<open>Strings and records\<close>

text \<open>A JavaScript string is a sequence of 16-bit code units; \<open>js\<close> embeds a literal.\<close>

type_synonym code_unit = "16 word"

type_synonym jsstring = "code_unit list"

definition unit_of :: "char \<Rightarrow> code_unit" where
  "unit_of c = of_nat (of_char c)"

definition js :: "string \<Rightarrow> jsstring" where
  "js s = map unit_of s"

text \<open>
  The upstream record \<open>GitHubRepository\<close> of github.types.ts, with the fields the
  services read. Fields that the scored record \<open>RepositoryWithScore\<close> has under
  the same name carry the prefix \<open>gh_\<close> here; the scored record's fields carry the
  prefix \<open>rs_\<close>, all but \<open>popularity_score\<close>. \<open>gh_updated_at\<close> holds the time value that
  \<open>new Date(updated_at).getTime()\<close> reads from the timestamp; a timestamp that does not
  parse is outside the model.
\<close>

record Owner =
  login :: jsstring
  avatar_url :: jsstring
  owner_type :: jsstring

record License =
  license_name :: jsstring
  spdx_id :: jsstring

record GitHubRepository =
  gh_id :: int
  gh_name :: jsstring
  gh_full_name :: jsstring
  gh_owner :: Owner
  gh_html_url :: jsstring
  gh_description :: "jsstring option"
  gh_created_at :: jsstring
  gh_updated_at :: int
  stargazers_count :: real
  gh_language :: "jsstring option"
  forks_count :: real
  open_issues_count :: real
  gh_topics :: "jsstring list option"
  gh_license :: "License option"

record RepositoryWithScore =
  rs_id :: int
  rs_name :: jsstring
  rs_full_name :: jsstring
  rs_owner :: Owner
  rs_description :: "jsstring option"
  rs_html_url :: jsstring
  rs_language :: "jsstring option"
  rs_created_at :: jsstring
  rs_updated_at :: int
  rs_stars :: real
  rs_forks :: real
  rs_open_issues :: real
  rs_topics :: "jsstring list option"
  rs_license :: "License option"
  popularity_score :: real

section \<open>Scoring\<close>

definition normalizeStars :: "real \<Rightarrow> real" where
  "normalizeStars stars =
     (if stars \<le> 0 then 0
      else let maxStarsReference = 100000;
               normalizedScore = Math_log10 (stars + 1) / Math_log10 (maxStarsReference + 1)
           in Math_min normalizedScore 1)"

definition normalizeForks :: "real \<Rightarrow> real" where
  "normalizeForks forks =
     (if forks \<le> 0 then 0
      else let maxForksReference = 10000;
               normalizedScore = Math_log10 (forks + 1) / Math_log10 (maxForksReference + 1)
           in Math_min normalizedScore 1)"

text \<open>\<open>calculateRecencyScore\<close> reads the clock (\<open>new Date()\<close>); the instant it reads is
  the argument \<open>now\<close>. \<open>updatedAt\<close> is the time value of the record's timestamp.\<close>

definition calculateRecencyScore :: "ScoringService \<Rightarrow> int \<Rightarrow> int \<Rightarrow> real" where
  "calculateRecencyScore this now updatedAt =
     (let daysSinceUpdate = (of_int now - of_int updatedAt) / (1000 * 60 * 60 * 24);
          recencyScore = Math_exp (- daysSinceUpdate / recencyDecayDays this)
      in Math_max recencyScore 0)"

definition calculatePopularityScore :: "ScoringService \<Rightarrow> int \<Rightarrow> GitHubRepository \<Rightarrow> real" where
  "calculatePopularityScore this now repo =
     (let starsScore = normalizeStars (stargazers_count repo);
          forksScore = normalizeForks (forks_count repo);
          recencyScore = calculateRecencyScore this now (gh_updated_at repo);
          score = starsScore * weight_stars (weights this)
                + forksScore * weight_forks (weights this)
                + recencyScore * weight_recency (weights this)
      in Math_round (score * 10 * 100) / 100)"


definition transformRepository :: "ScoringService \<Rightarrow> int \<Rightarrow> GitHubRepository \<Rightarrow> RepositoryWithScore" where
  "transformRepository this now repo =
     (let popularityScore = calculatePopularityScore this now repo
      in \<lparr>rs_id = gh_id repo,
          rs_name = gh_name repo,
          rs_full_name = gh_full_name repo,
          rs_owner = \<lparr>login = login (gh_owner repo),
                      avatar_url = avatar_url (gh_owner repo),
                      owner_type = owner_type (gh_owner repo)\<rparr>,
          rs_description = gh_description repo,
          rs_html_url = gh_html_url repo,
          rs_language = gh_language repo,
          rs_created_at = gh_created_at repo,
          rs_updated_at = gh_updated_at repo,
          rs_stars = stargazers_count repo,
          rs_forks = forks_count repo,
          rs_open_issues = open_issues_count repo,
          rs_topics = gh_topics repo,
          rs_license = (case gh_license repo of
                          None \<Rightarrow> None
                        | Some l \<Rightarrow> Some \<lparr>license_name = license_name l, spdx_id = spdx_id l\<rparr>),
          popularity_score = popularityScore\<rparr>)"

definition transformRepositories :: "ScoringService \<Rightarrow> int \<Rightarrow> GitHubRepository list \<Rightarrow> RepositoryWithScore list" where
  "transformRepositories this now repos = map (\<lambda>repo. transformRepository this now repo) repos"

text \<open>The fixture \<open>createMockRepo\<close> of scoring.service.test.ts. The test draws the
  identifier at random and stamps the current time when no timestamp is passed; here
  the identifier is 1 and the timestamp is always passed.\<close>

definition createMockRepo :: "real \<Rightarrow> real \<Rightarrow> int \<Rightarrow> GitHubRepository" where
  "createMockRepo stars forks updatedAt =
     \<lparr>gh_id = 1,
      gh_name = js ''test-repo'',
      gh_full_name = js ''owner/test-repo'',
      gh_owner = \<lparr>login = js ''owner'', avatar_url = js ''https://example.com/avatar.jpg'',
                  owner_type = js ''User''\<rparr>,
      gh_html_url = js ''https://github.com/owner/test-repo'',
      gh_description = Some (js ''Test repository''),
      gh_created_at = js ''2023-01-01T00:00:00Z'',
      gh_updated_at = updatedAt,
      stargazers_count = stars,
      gh_language = Some (js ''TypeScript''),
      forks_count = forks,
      open_issues_count = 10,
      gh_topics = None,
      gh_license = None\<rparr>"

text \<open>The fixture \<open>createMockRepoWithScore\<close> of the same test file, with the score the
  tests spread into it.\<close>

definition createMockRepoWithScore :: "real \<Rightarrow> real \<Rightarrow> real \<Rightarrow> RepositoryWithScore" where
  "createMockRepoWithScore stars forks score =
     \<lparr>rs_id = 1,
      rs_name = js ''test-repo'',
      rs_full_name = js ''owner/test-repo'',
      rs_owner = \<lparr>login = js ''owner'', avatar_url = js ''https://example.com/avatar.jpg'',
                  owner_type = js ''User''\<rparr>,
      rs_description = Some (js ''Test repository''),
      rs_html_url = js ''https://github.com/owner/test-repo'',
      rs_language = Some (js ''TypeScript''),
      rs_created_at = js ''2023-01-01T00:00:00Z'',
      rs_updated_at = 1704067200000,
      rs_stars = stars,
      rs_forks = forks,
      rs_open_issues = 10,
      rs_topics = None,
      rs_license = None,
      popularity_score = score\<rparr>"

section \<open>Sorting\<close>

datatype sort_order = asc | desc

text \<open>
  \<open>Array.prototype.sort\<close> belongs to the runtime, not to the repository. ECMAScript
  (since the 2019 edition) requires it to be stable and to order two elements by the
  sign of the comparator: a negative result keeps \<open>a\<close> before \<open>b\<close>, a positive one moves
  \<open>b\<close> first, zero keeps the order they had. It is modelled by inserting the elements
  from the right, each before the first element it must not follow.
\<close>

primrec place_before :: "('a \<Rightarrow> 'a \<Rightarrow> real) \<Rightarrow> 'a \<Rightarrow> 'a list \<Rightarrow> 'a list" where
  "place_before compareFn a [] = [a]"
| "place_before compareFn a (b # rest) =
     (if compareFn a b \<le> 0 then a # b # rest else b # place_before compareFn a rest)"

definition Array_sort :: "('a \<Rightarrow> 'a \<Rightarrow> real) \<Rightarrow> 'a list \<Rightarrow> 'a list" where
  "Array_sort compareFn elements = foldr (place_before compareFn) elements []"

text \<open>The value \<open>sortByPopularityScore\<close> returns. The second argument is optional in the
  source and defaults to \<open>desc\<close>.\<close>

definition sortByPopularityScore ::
    "RepositoryWithScore list \<Rightarrow> sort_order option \<Rightarrow> RepositoryWithScore list" where
  "sortByPopularityScore repos order_arg =
     (let order = (case order_arg of None \<Rightarrow> desc | Some v \<Rightarrow> v)
      in Array_sort
           (\<lambda>a b. if order = desc then popularity_score b - popularity_score a
                  else popularity_score a - popularity_score b)
           repos)"

text \<open>
  The same method on a store of arrays, where mutation shows. An array reference is an
  index into the store. The spread \<open>[...repos]\<close> allocates a new array holding the
  elements of \<open>repos\<close>; \<open>sort\<close> sorts the array it is called on in place and returns
  that same reference. A reference outside the store does not occur in the source; the
  model answers \<open>None\<close> for it.
\<close>

type_synonym 'a arrays = "'a list list"

definition spread_copy :: "nat \<Rightarrow> 'a arrays \<Rightarrow> nat \<times> 'a arrays" where
  "spread_copy ref h = (length h, h @ [h ! ref])"

definition sort_in_place :: "('a \<Rightarrow> 'a \<Rightarrow> real) \<Rightarrow> nat \<Rightarrow> 'a arrays \<Rightarrow> nat \<times> 'a arrays" where
  "sort_in_place compareFn ref h = (ref, h[ref := Array_sort compareFn (h ! ref)])"

definition sortByPopularityScore_in_store ::
    "nat \<Rightarrow> sort_order option \<Rightarrow> RepositoryWithScore arrays
     \<Rightarrow> (nat \<times> RepositoryWithScore arrays) option" where
  "sortByPopularityScore_in_store repos order_arg h =
     (if repos < length h then
        let order = (case order_arg of None \<Rightarrow> desc | Some v \<Rightarrow> v);
            (copy, h1) = spread_copy repos h
        in Some (sort_in_place
             (\<lambda>a b. if order = desc then popularity_score b - popularity_score a
                    else popularity_score a - popularity_score b)
             copy h1)
      else None)"

section \<open>Sanitizing the language filter\<close>

text \<open>
  \<open>sanitizeInput\<close> is \<open>input.replace(/[^a-zA-Z0-9\s\-_+#.]/g, '')\<close>. The pattern is one
  negated character class; a class is a list of ranges, single characters and the
  escape \<open>\s\<close>. \<open>\s\<close> matches ECMAScript's white space and line terminators.
\<close>

definition is_js_whitespace :: "code_unit \<Rightarrow> bool" where
  "is_js_whitespace c =
     (c \<in> set [0x9, 0xA, 0xB, 0xC, 0xD, 0x20, 0xA0, 0x1680, 0x2028, 0x2029, 0x202F,
                0x205F, 0x3000, 0xFEFF]
      \<or> (0x2000 \<le> c \<and> c \<le> 0x200A))"

datatype class_atom = CharRange code_unit code_unit | ClassChar code_unit | WhiteSpaceEscape

primrec atom_matches :: "class_atom \<Rightarrow> code_unit \<Rightarrow> bool" where
  "atom_matches (CharRange lo hi) c = (lo \<le> c \<and> c \<le> hi)"
| "atom_matches (ClassChar d) c = (c = d)"
| "atom_matches WhiteSpaceEscape c = is_js_whitespace c"

definition negated_class_matches :: "class_atom list \<Rightarrow> code_unit \<Rightarrow> bool" where
  "negated_class_matches atoms c = (\<not> list_ex (\<lambda>a. atom_matches a c) atoms)"

text \<open>\<open>replace\<close> with a global one-character pattern: every code unit the pattern matches
  is replaced, the others are kept.\<close>

primrec String_replace_global :: "(code_unit \<Rightarrow> bool) \<Rightarrow> jsstring \<Rightarrow> jsstring \<Rightarrow> jsstring" where
  "String_replace_global matches replacement [] = []"
| "String_replace_global matches replacement (c # rest) =
     (if matches c then replacement @ String_replace_global matches replacement rest
      else c # String_replace_global matches replacement rest)"

definition sanitize_pattern :: "class_atom list" where
  "sanitize_pattern =
     [CharRange (unit_of CHR ''a'') (unit_of CHR ''z''),
      CharRange (unit_of CHR ''A'') (unit_of CHR ''Z''),
      CharRange (unit_of CHR ''0'') (unit_of CHR ''9''),
      WhiteSpaceEscape,
      ClassChar (unit_of CHR ''-''), ClassChar (unit_of CHR ''_''), ClassChar (unit_of CHR ''+''),
      ClassChar (unit_of CHR ''#''), ClassChar (unit_of CHR ''.'')]"

definition sanitizeInput :: "jsstring \<Rightarrow> jsstring" where
  "sanitizeInput input =
     String_replace_global (negated_class_matches sanitize_pattern) (js '''') input"

section \<open>Dates\<close>

text \<open>
  \<open>Date\<close> belongs to the runtime. A valid date is its time value, an integer number of
  milliseconds since the epoch of absolute value at most 8.64e15; \<open>None\<close> stands for the
  invalid date, whose time value is NaN. The calendar fields of a time value are those
  of ECMAScript's \<open>YearFromTime\<close>, \<open>MonthFromTime\<close> and \<open>DateFromTime\<close> (proleptic
  Gregorian calendar, UTC), computed from the day number by era, year of era and day of
  year.
\<close>

definition msPerDay :: int where
  "msPerDay = 86400000"

definition Day :: "int \<Rightarrow> int" where
  "Day t = t div msPerDay"

definition civil_from_days :: "int \<Rightarrow> int \<times> int \<times> int" where
  "civil_from_days n =
     (let z = n + 719468;
          era = z div 146097;
          doe = z mod 146097;
          yoe = (doe - doe div 1460 + doe div 36524 - doe div 146096) div 365;
          doy = doe - (365 * yoe + yoe div 4 - yoe div 100);
          mp = (5 * doy + 2) div 153;
          d = doy - (153 * mp + 2) div 5 + 1;
          m = (if mp < 10 then mp + 3 else mp - 9);
          y = yoe + era * 400 + (if m \<le> 2 then 1 else 0)
      in (y, m, d))"

definition days_from_civil :: "int \<Rightarrow> int \<Rightarrow> int \<Rightarrow> int" where
  "days_from_civil y m d =
     (let y' = (if m \<le> 2 then y - 1 else y);
          era = y' div 400;
          yoe = y' mod 400;
          doy = (153 * (if m > 2 then m - 3 else m + 9) + 2) div 5 + d - 1;
          doe = yoe * 365 + yoe div 4 - yoe div 100 + doy
      in era * 146097 + doe - 719468)"

definition YearFromTime :: "int \<Rightarrow> int" where
  "YearFromTime t = fst (civil_from_days (Day t))"

definition MonthFromTime :: "int \<Rightarrow> int" where
  "MonthFromTime t = fst (snd (civil_from_days (Day t))) - 1"

definition DateFromTime :: "int \<Rightarrow> int" where
  "DateFromTime t = snd (snd (civil_from_days (Day t)))"

definition HourFromTime :: "int \<Rightarrow> int" where
  "HourFromTime t = (t div 3600000) mod 24"

definition MinFromTime :: "int \<Rightarrow> int" where
  "MinFromTime t = (t div 60000) mod 60"

definition SecFromTime :: "int \<Rightarrow> int" where
  "SecFromTime t = (t div 1000) mod 60"

definition msFromTime :: "int \<Rightarrow> int" where
  "msFromTime t = t mod 1000"

definition digit_unit :: "int \<Rightarrow> code_unit" where
  "digit_unit n = of_nat (48 + nat (n mod 10))"

definition digits2 :: "int \<Rightarrow> jsstring" where
  "digits2 n = [digit_unit (n div 10), digit_unit n]"

definition digits3 :: "int \<Rightarrow> jsstring" where
  "digits3 n = [digit_unit (n div 100), digit_unit (n div 10), digit_unit n]"

definition digits4 :: "int \<Rightarrow> jsstring" where
  "digits4 n = [digit_unit (n div 1000), digit_unit (n div 100), digit_unit (n div 10),
                digit_unit n]"

definition digits6 :: "int \<Rightarrow> jsstring" where
  "digits6 n = [digit_unit (n div 100000), digit_unit (n div 10000), digit_unit (n div 1000),
                digit_unit (n div 100), digit_unit (n div 10), digit_unit n]"

text \<open>\<open>toISOString\<close> writes a year from 0 to 9999 with four digits and any other year with
  a sign and six digits.\<close>

definition year_string :: "int \<Rightarrow> jsstring" where
  "year_string y =
     (if 0 \<le> y \<and> y \<le> 9999 then digits4 y
      else if y < 0 then js ''-'' @ digits6 (- y)
      else js ''+'' @ digits6 y)"

definition toISOString :: "int \<Rightarrow> jsstring" where
  "toISOString t =
     year_string (YearFromTime t) @ js ''-'' @ digits2 (MonthFromTime t + 1) @ js ''-''
     @ digits2 (DateFromTime t) @ js ''T'' @ digits2 (HourFromTime t) @ js '':''
     @ digits2 (MinFromTime t) @ js '':'' @ digits2 (SecFromTime t) @ js ''.''
     @ digits3 (msFromTime t) @ js ''Z''"

text \<open>\<open>s.split('T')[0]\<close>: the part of \<open>s\<close> before the first separator.\<close>

definition split_first :: "code_unit \<Rightarrow> jsstring \<Rightarrow> jsstring" where
  "split_first separator s = takeWhile (\<lambda>c. c \<noteq> separator) s"

text \<open>
  \<open>new Date(s)\<close> for a string: the runtime's parser gives the time value, and a value out
  of range is no date. Which strings parse is the runtime's business beyond the
  ECMAScript date-time format, so the parser is an argument, \<open>Date_parse\<close>, of everything
  that constructs a date.
\<close>

definition new_Date :: "(jsstring \<Rightarrow> int option) \<Rightarrow> jsstring \<Rightarrow> int option" where
  "new_Date Date_parse s =
     (case Date_parse s of
        None \<Rightarrow> None
      | Some t \<Rightarrow> if \<bar>t\<bar> \<le> 8640000000000000 then Some t else None)"

text \<open>
  A parser for the examples: the date-only forms of the ECMAScript date-time format,
  \<open>YYYY\<close>, \<open>YYYY-MM\<close> and \<open>YYYY-MM-DD\<close>, the year also written with a sign and six
  digits, read as UTC midnight. Every other string is unparseable for it; an engine
  accepts more.
\<close>

definition digit_value :: "code_unit \<Rightarrow> int option" where
  "digit_value c = (if 48 \<le> c \<and> c \<le> 57 then Some (int (unat c) - 48) else None)"

primrec number_value :: "int \<Rightarrow> jsstring \<Rightarrow> int option" where
  "number_value acc [] = Some acc"
| "number_value acc (c # rest) =
     (case digit_value c of None \<Rightarrow> None | Some v \<Rightarrow> number_value (10 * acc + v) rest)"

definition DaysInMonth :: "int \<Rightarrow> int \<Rightarrow> int" where
  "DaysInMonth y m =
     (if m = 2 then
        (if y mod 4 \<noteq> 0 then 28 else if y mod 100 \<noteq> 0 then 29
         else if y mod 400 \<noteq> 0 then 28 else 29)
      else if m = 4 \<or> m = 6 \<or> m = 9 \<or> m = 11 then 30 else 31)"

definition parse_year :: "jsstring \<Rightarrow> (int \<times> jsstring) option" where
  "parse_year s =
     (case s of
        [] \<Rightarrow> None
      | c # rest \<Rightarrow>
          (if c = unit_of CHR ''+'' \<or> c = unit_of CHR ''-'' then
             (if length rest < 6 then None
              else (case number_value 0 (take 6 rest) of
                      None \<Rightarrow> None
                    | Some y \<Rightarrow>
                        (if c = unit_of CHR ''-''
                         then (if y = 0 then None else Some (- y, drop 6 rest))
                         else Some (y, drop 6 rest))))
           else if length s < 4 then None
           else (case number_value 0 (take 4 s) of
                   None \<Rightarrow> None
                 | Some y \<Rightarrow> Some (y, drop 4 s))))"

definition parse_dash_number :: "jsstring \<Rightarrow> (int \<times> jsstring) option" where
  "parse_dash_number s =
     (case s of
        d # a # b # rest \<Rightarrow>
          (if d = unit_of CHR ''-'' then
             (case number_value 0 [a, b] of None \<Rightarrow> None | Some v \<Rightarrow> Some (v, rest))
           else None)
      | _ \<Rightarrow> None)"

definition Date_parse_date_only :: "jsstring \<Rightarrow> int option" where
  "Date_parse_date_only s =
     (case parse_year s of
        None \<Rightarrow> None
      | Some (y, rest1) \<Rightarrow>
          (if rest1 = [] then Some (days_from_civil y 1 1 * msPerDay)
           else (case parse_dash_number rest1 of
                   None \<Rightarrow> None
                 | Some (m, rest2) \<Rightarrow>
                     (if m < 1 \<or> 12 < m then None
                      else if rest2 = [] then Some (days_from_civil y m 1 * msPerDay)
                      else (case parse_dash_number rest2 of
                              None \<Rightarrow> None
                            | Some (d, rest3) \<Rightarrow>
                                (if rest3 = [] \<and> 1 \<le> d \<and> d \<le> DaysInMonth y m
                                 then Some (days_from_civil y m d * msPerDay)
                                 else None))))))"

section \<open>Building the query\<close>

text \<open>The error classes of utils/errors; the status code of a class is fixed by the
  class, all but that of \<open>GitHubAPIError\<close>.\<close>

datatype AppError =
    ValidationError jsstring
  | GitHubAPIError jsstring int
  | RateLimitError jsstring "int option"
  | NotFoundError jsstring

datatype sort_option = sort_score | sort_stars | sort_forks | sort_updated

text \<open>\<open>SearchQuery\<close> of github.types.ts; every field is optional. The fields \<open>sort\<close> and
  \<open>order\<close> are \<open>sort_param\<close> and \<open>order_param\<close> here.\<close>

record SearchQuery =
  language :: "jsstring option"
  createdAfter :: "jsstring option"
  sort_param :: "sort_option option"
  order_param :: "sort_order option"
  page :: "int option"
  perPage :: "int option"

text \<open>\<open>parts.join(separator)\<close>.\<close>

primrec Array_join :: "jsstring list \<Rightarrow> jsstring \<Rightarrow> jsstring" where
  "Array_join [] separator = []"
| "Array_join (part # rest) separator =
     (case rest of [] \<Rightarrow> part | _ # _ \<Rightarrow> part @ separator @ Array_join rest separator)"

text \<open>
  \<open>buildQueryString\<close>. The tests \<open>if (query.language)\<close> and \<open>if (query.createdAfter)\<close> are
  truthiness tests: a field that is absent or the empty string fails them. The thrown
  \<open>ValidationError\<close> is the result \<open>Inl\<close>.
\<close>

definition buildQueryString :: "(jsstring \<Rightarrow> int option) \<Rightarrow> SearchQuery \<Rightarrow> AppError + jsstring" where
  "buildQueryString Date_parse query =
     (let parts0 = [];
          parts1 = (case language query of
                      None \<Rightarrow> parts0
                    | Some l \<Rightarrow>
                        (if l \<noteq> [] then
                           let sanitizedLanguage = sanitizeInput l
                           in parts0 @ [js ''language:'' @ sanitizedLanguage]
                         else parts0));
          dated = (case createdAfter query of
                     None \<Rightarrow> Inr parts1
                   | Some c \<Rightarrow>
                       (if c \<noteq> [] then
                          (case new_Date Date_parse c of
                             None \<Rightarrow> Inl (ValidationError (js
                               ''Invalid date format for createdAfter. Use ISO 8601 format (YYYY-MM-DD)''))
                           | Some date \<Rightarrow>
                               let formattedDate = split_first (unit_of CHR ''T'') (toISOString date)
                               in Inr (parts1 @ [js ''created:>='' @ formattedDate]))
                        else Inr parts1))
      in case dated of
           Inl err \<Rightarrow> Inl err
         | Inr parts2 \<Rightarrow>
             let parts3 = (if length parts2 = 0 then parts2 @ [js ''stars:>0''] else parts2);
                 queryString = Array_join parts3 (js '' '')
             in Inr queryString)"

definition mapSortParameter :: "sort_option option \<Rightarrow> jsstring option" where
  "mapSortParameter sort_arg =
     (case sort_arg of
        None \<Rightarrow> None
      | Some sort_score \<Rightarrow> None
      | Some sort_stars \<Rightarrow> Some (js ''stars'')
      | Some sort_forks \<Rightarrow> Some (js ''forks'')
      | Some sort_updated \<Rightarrow> Some (js ''updated''))"

record SearchParams =
  param_q :: jsstring
  param_sort :: "jsstring option"
  param_order :: sort_order
  param_per_page :: int
  param_page :: int

record GitHubSearchResponse =
  total_count :: int
  incomplete_results :: bool
  items :: "GitHubRepository list"

record SearchResult =
  result_total_count :: int
  result_incomplete_results :: bool
  result_items :: "RepositoryWithScore list"
  result_page :: int
  result_per_page :: int

text \<open>
  \<open>searchRepositories\<close>. The upstream call \<open>client.get\<close>, with the error mapping of its
  response interceptor, is the argument \<open>client_get\<close>; the requests issued so far are the
  list \<open>sent\<close>, returned with the request of this call appended when one is made. The
  source reads the clock once per record scored; the model scores a page at one
  instant \<open>now\<close>. Logging is left out.
\<close>

definition searchRepositories ::
    "(jsstring \<Rightarrow> int option) \<Rightarrow> (SearchParams \<Rightarrow> AppError + GitHubSearchResponse)
     \<Rightarrow> ScoringService \<Rightarrow> int \<Rightarrow> SearchQuery \<Rightarrow> SearchParams list
     \<Rightarrow> (AppError + SearchResult) \<times> SearchParams list" where
  "searchRepositories Date_parse client_get scoring now query sent =
     (case buildQueryString Date_parse query of
        Inl err \<Rightarrow> (Inl err, sent)
      | Inr q \<Rightarrow>
          (let params = \<lparr>param_q = q,
                         param_sort = mapSortParameter (sort_param query),
                         param_order = (case order_param query of None \<Rightarrow> desc | Some v \<Rightarrow> v),
                         param_per_page = (case perPage query of
                                             None \<Rightarrow> 30
                                           | Some n \<Rightarrow> (if n = 0 then 30 else n)),
                         param_page = (case page query of
                                         None \<Rightarrow> 1
                                       | Some n \<Rightarrow> (if n = 0 then 1 else n))\<rparr>;
               sent' = sent @ [params]
           in (case client_get params of
                 Inl err \<Rightarrow> (Inl err, sent')
               | Inr response \<Rightarrow>
                   (let scoredItems = transformRepositories scoring now (items response);
                        scoredItems' =
                          (if sort_param query = Some sort_score
                           then sortByPopularityScore scoredItems
                                  (Some (case order_param query of None \<Rightarrow> desc | Some v \<Rightarrow> v))
                           else scoredItems)
                    in (Inr \<lparr>result_total_count = total_count response,
                             result_incomplete_results = incomplete_results response,
                             result_items = scoredItems',
                             result_page = param_page params,
                             result_per_page = param_per_page params\<rparr>, sent')))))"

text \<open>The request \<open>{}\<close>.\<close>

definition no_filters :: SearchQuery where
  "no_filters = \<lparr>language = None, createdAfter = None, sort_param = None,
                  order_param = None, page = None, perPage = None\<rparr>"

section \<open>Reference definitions of the scoring terms\<close>

text \<open>These three follow the wording of the specification, to be compared with the
  functions above.\<close>

definition spec_normalizeLog :: "real \<Rightarrow> real \<Rightarrow> real" where
  "spec_normalizeLog cnt ceiling_ref =
     (if cnt \<le> 0 then 0 else min 1 (log 10 (cnt + 1) / log 10 (ceiling_ref + 1)))"

definition spec_daysSince :: "int \<Rightarrow> int \<Rightarrow> real" where
  "spec_daysSince updatedAt now = of_int (now - updatedAt) / 86400000"

definition spec_exponentialDecay :: "real \<Rightarrow> real \<Rightarrow> real" where
  "spec_exponentialDecay daysSince halfLifeParameterDays =
     max 0 (exp (- daysSince / halfLifeParameterDays))"

section \<open>Reference definitions of the query translation\<close>

text \<open>These follow the wording of the specification. Letters and digits are the ASCII
  ones, white space is what \<open>\s\<close> matches.\<close>

definition is_ascii_letter :: "code_unit \<Rightarrow> bool" where
  "is_ascii_letter c =
     ((unit_of CHR ''a'' \<le> c \<and> c \<le> unit_of CHR ''z'')
      \<or> (unit_of CHR ''A'' \<le> c \<and> c \<le> unit_of CHR ''Z''))"

definition is_ascii_digit :: "code_unit \<Rightarrow> bool" where
  "is_ascii_digit c = (unit_of CHR ''0'' \<le> c \<and> c \<le> unit_of CHR ''9'')"

definition spec_allow_set :: "code_unit \<Rightarrow> bool" where
  "spec_allow_set c =
     (is_ascii_letter c \<or> is_ascii_digit c \<or> is_js_whitespace c
      \<or> c = unit_of CHR ''-'' \<or> c = unit_of CHR ''_'' \<or> c = unit_of CHR ''+''
      \<or> c = unit_of CHR ''#'' \<or> c = unit_of CHR ''.'')"

definition spec_sanitize :: "jsstring \<Rightarrow> jsstring" where
  "spec_sanitize raw = filter spec_allow_set raw"

text \<open>The form \<open>YYYY-MM-DD\<close>: four digits, a hyphen, two digits, a hyphen, two digits.\<close>

definition is_ymd_form :: "jsstring \<Rightarrow> bool" where
  "is_ymd_form s =
     (length s = 10 \<and> list_all is_ascii_digit (take 4 s) \<and> s ! 4 = unit_of CHR ''-''
      \<and> list_all is_ascii_digit (take 2 (drop 5 s)) \<and> s ! 7 = unit_of CHR ''-''
      \<and> list_all is_ascii_digit (drop 8 s))"

definition createdAfter_message :: jsstring where
  "createdAfter_message =
     js ''Invalid date format for createdAfter. Use ISO 8601 format (YYYY-MM-DD)''"

text \<open>A creation-date floor that is set (present and not empty) and is no date.\<close>

definition createdAfter_rejected :: "(jsstring \<Rightarrow> int option) \<Rightarrow> SearchQuery \<Rightarrow> bool" where
  "createdAfter_rejected Date_parse query =
     (case createdAfter query of
        None \<Rightarrow> False
      | Some c \<Rightarrow> c \<noteq> [] \<and> new_Date Date_parse c = None)"

text \<open>The clauses of the query, in the order of the specification: the language clause
  if a language is set, the date clause if a date is set, the default clause if neither
  produced one.\<close>

definition spec_language_clause :: "SearchQuery \<Rightarrow> jsstring list" where
  "spec_language_clause query =
     (case language query of
        None \<Rightarrow> []
      | Some l \<Rightarrow> (if l = [] then [] else [js ''language:'' @ sanitizeInput l]))"

definition spec_date_clause :: "(jsstring \<Rightarrow> int option) \<Rightarrow> SearchQuery \<Rightarrow> jsstring list" where
  "spec_date_clause Date_parse query =
     (case createdAfter query of
        None \<Rightarrow> []
      | Some c \<Rightarrow>
          (if c = [] then []
           else (case new_Date Date_parse c of
                   None \<Rightarrow> []
                 | Some t \<Rightarrow>
                     [js ''created:>='' @ split_first (unit_of CHR ''T'') (toISOString t)])))"

definition spec_default_clause :: "jsstring list \<Rightarrow> jsstring list" where
  "spec_default_clause produced = (if produced = [] then [js ''stars:>0''] else [])"

definition spec_clauses :: "(jsstring \<Rightarrow> int option) \<Rightarrow> SearchQuery \<Rightarrow> jsstring list" where
  "spec_clauses Date_parse query =
     spec_language_clause query @ spec_date_clause Date_parse query
     @ spec_default_clause (spec_language_clause query @ spec_date_clause Date_parse query)"

section \<open>The scoring terms against their reference definitions\<close>

text \<open>
  C4. The stars term is \<open>normalizeLog\<close> with ceiling 100000, the forks term is
  \<open>normalizeLog\<close> with ceiling 10000, and the recency term is the exponential decay of
  the fractional days between the record's last update and now, with the configured
  decay parameter.
\<close>

theorem scoring_terms_refine_reference:
  "normalizeStars c = spec_normalizeLog c 100000
   \<and> normalizeForks c = spec_normalizeLog c 10000
   \<and> calculateRecencyScore this now updatedAt
       = spec_exponentialDecay (spec_daysSince updatedAt now) (recencyDecayDays this)"
  by (simp add: normalizeStars_def normalizeForks_def calculateRecencyScore_def
      spec_normalizeLog_def spec_daysSince_def spec_exponentialDecay_def
      Math_log10_def Math_exp_def Math_min_def Math_max_def min.commute max.commute)

section \<open>Rounding and the three terms\<close>

lemma Math_round_mono: "x \<le> y \<Longrightarrow> Math_round x \<le> Math_round y"
  by (simp add: Math_round_def floor_mono)

lemma Math_round_eqI:
  "of_int k - 1 / 2 \<le> x \<Longrightarrow> x < of_int k + 1 / 2 \<Longrightarrow> Math_round x = of_int k"
  unfolding Math_round_def by (simp add: floor_eq_iff)

lemma normalizeStars_mono: "a \<le> b \<Longrightarrow> normalizeStars a \<le> normalizeStars b"
  by (auto simp: normalizeStars_def Math_log10_def Math_min_def Let_def min_def
      divide_right_mono intro!: divide_nonneg_nonneg)

lemma normalizeForks_mono: "a \<le> b \<Longrightarrow> normalizeForks a \<le> normalizeForks b"
  by (auto simp: normalizeForks_def Math_log10_def Math_min_def Let_def min_def
      divide_right_mono intro!: divide_nonneg_nonneg)

lemma normalizeStars_range: "0 \<le> normalizeStars a \<and> normalizeStars a \<le> 1"
  by (auto simp: normalizeStars_def Math_log10_def Math_min_def Let_def min_def
      intro!: divide_nonneg_nonneg)

lemma normalizeForks_range: "0 \<le> normalizeForks a \<and> normalizeForks a \<le> 1"
  by (auto simp: normalizeForks_def Math_log10_def Math_min_def Let_def min_def
      intro!: divide_nonneg_nonneg)

lemma normalizeStars_0: "normalizeStars 0 = 0"
  by (simp add: normalizeStars_def)

lemma normalizeForks_0: "normalizeForks 0 = 0"
  by (simp add: normalizeForks_def)

lemma normalizeStars_ceiling: "normalizeStars 100000 = 1"
proof -
  have "0 < log 10 (100001 :: real)" by simp
  then have "log 10 (100001 :: real) \<noteq> 0" by linarith
  then show ?thesis by (simp add: normalizeStars_def Math_log10_def Math_min_def)
qed

lemma normalizeForks_ceiling: "normalizeForks 10000 = 1"
proof -
  have "0 < log 10 (10001 :: real)" by simp
  then have "log 10 (10001 :: real) \<noteq> 0" by linarith
  then show ?thesis by (simp add: normalizeForks_def Math_log10_def Math_min_def)
qed

lemma recency_pos: "0 < calculateRecencyScore this now u"
  by (simp add: calculateRecencyScore_def Math_exp_def Math_max_def Let_def)


lemma recency_le_1:
  "0 < recencyDecayDays this \<Longrightarrow> u \<le> now \<Longrightarrow> calculateRecencyScore this now u \<le> 1"
  by (simp add: calculateRecencyScore_def Math_exp_def Math_max_def Let_def)

lemma score_unfold:
  "calculatePopularityScore this now repo =
     Math_round ((normalizeStars (stargazers_count repo) * weight_stars (weights this)
                + normalizeForks (forks_count repo) * weight_forks (weights this)
                + calculateRecencyScore this now (gh_updated_at repo) * weight_recency (weights this))
                * 10 * 100) / 100"
  by (simp only: calculatePopularityScore_def Let_def)

lemma default_service_weights:
  "weight_stars (weights scoringService) = 4 / 10"
  "weight_forks (weights scoringService) = 3 / 10"
  "weight_recency (weights scoringService) = 3 / 10"
  "recencyDecayDays scoringService = 365"
  by (simp_all add: scoringService_def new_ScoringService_def default_weights_def)

lemma default_recency:
  "calculateRecencyScore scoringService now u = exp ((of_int u - of_int now) / 31536000000)"
  by (simp add: calculateRecencyScore_def default_service_weights
      Math_exp_def Math_max_def Let_def field_simps)

section \<open>The range of the score\<close>

text \<open>The score always has two decimal places. With non-negative weights it is never
  negative, and it is at most 10 when, moreover, the weights sum to at most 1 and the
  last update is not after now.\<close>

lemma Math_round_nonneg: "0 \<le> x \<Longrightarrow> 0 \<le> Math_round x"
  by (simp add: Math_round_def)

lemma Math_round_le_int: "x \<le> of_int k \<Longrightarrow> Math_round x \<le> of_int k"
proof -
  assume "x \<le> of_int k"
  then have "x + 1 / 2 < of_int (k + 1)" by simp
  then have "\<lfloor>x + 1 / 2\<rfloor> < k + 1" by (simp only: floor_less_iff)
  then show ?thesis by (simp add: Math_round_def)
qed

lemma score_has_two_decimals:
  "calculatePopularityScore this now repo * 100 \<in> \<int>"
  by (simp add: score_unfold Math_round_def)

lemma weighted_sum_range:
  assumes "0 \<le> weight_stars (weights this)" and "0 \<le> weight_forks (weights this)"
    and "0 \<le> weight_recency (weights this)"
  shows "0 \<le> normalizeStars s * weight_stars (weights this)
            + normalizeForks f * weight_forks (weights this)
            + calculateRecencyScore this now u * weight_recency (weights this)"
  using assms normalizeStars_range [of s] normalizeForks_range [of f] recency_pos [of this now u]
  by (simp add: add_nonneg_nonneg)

lemma score_nonneg:
  assumes "0 \<le> weight_stars (weights this)" and "0 \<le> weight_forks (weights this)"
    and "0 \<le> weight_recency (weights this)"
  shows "0 \<le> calculatePopularityScore this now repo"
proof -
  have "0 \<le> (normalizeStars (stargazers_count repo) * weight_stars (weights this)
        + normalizeForks (forks_count repo) * weight_forks (weights this)
        + calculateRecencyScore this now (gh_updated_at repo) * weight_recency (weights this))
        * 10 * 100"
    using weighted_sum_range [OF assms, of "stargazers_count repo" "forks_count repo" now
        "gh_updated_at repo"]
    by simp
  then have "0 \<le> Math_round ((normalizeStars (stargazers_count repo) * weight_stars (weights this)
        + normalizeForks (forks_count repo) * weight_forks (weights this)
        + calculateRecencyScore this now (gh_updated_at repo) * weight_recency (weights this))
        * 10 * 100)"
    by (rule Math_round_nonneg)
  then show ?thesis
    by (simp add: score_unfold)
qed

lemma score_at_most_ten:
  assumes w: "0 \<le> weight_stars (weights this)" "0 \<le> weight_forks (weights this)"
      "0 \<le> weight_recency (weights this)"
    and total: "weight_stars (weights this) + weight_forks (weights this)
        + weight_recency (weights this) \<le> 1"
    and decay: "0 < recencyDecayDays this"
    and past: "gh_updated_at repo \<le> now"
  shows "calculatePopularityScore this now repo \<le> 10"
proof -
  have s: "normalizeStars (stargazers_count repo) * weight_stars (weights this)
      \<le> weight_stars (weights this)"
    using w(1) normalizeStars_range [of "stargazers_count repo"]
    by (simp add: mult_left_le_one_le)
  have f: "normalizeForks (forks_count repo) * weight_forks (weights this)
      \<le> weight_forks (weights this)"
    using w(2) normalizeForks_range [of "forks_count repo"]
    by (simp add: mult_left_le_one_le)
  have r: "calculateRecencyScore this now (gh_updated_at repo) * weight_recency (weights this)
      \<le> weight_recency (weights this)"
    using w(3) recency_le_1 [OF decay past] recency_pos [of this now "gh_updated_at repo"]
    by (simp add: mult_left_le_one_le)
  have "(normalizeStars (stargazers_count repo) * weight_stars (weights this)
        + normalizeForks (forks_count repo) * weight_forks (weights this)
        + calculateRecencyScore this now (gh_updated_at repo) * weight_recency (weights this))
        * 10 * 100 \<le> of_int 1000"
    using s f r total by simp
  then have "Math_round ((normalizeStars (stargazers_count repo) * weight_stars (weights this)
        + normalizeForks (forks_count repo) * weight_forks (weights this)
        + calculateRecencyScore this now (gh_updated_at repo) * weight_recency (weights this))
        * 10 * 100) \<le> of_int 1000"
    by (rule Math_round_le_int)
  then show ?thesis
    by (simp add: score_unfold)
qed

text \<open>
  C1. The score is meant to lie between 0 and 10. With the default weights, a record at
  both reference ceilings (100000 stars, 10000 forks) whose last update lies one day
  after the instant read as now (2024-01-02T00:00:00Z against 2024-01-01T00:00:00Z)
  scores 10.01: the recency term is \<open>exp (1 / 365)\<close>, above 1, and nothing caps it.
\<close>

theorem score_exceeds_ten_for_future_update:
  "calculatePopularityScore scoringService 1704067200000
     (createMockRepo 100000 10000 1704153600000) = 1001 / 100"
proof -
  define e :: real where "e = exp (1 / 365)"
  have r: "calculateRecencyScore scoringService 1704067200000 1704153600000 = e"
    by (simp add: default_recency e_def)
  have lo: "1 + 1 / 365 \<le> e"
    unfolding e_def by (rule exp_ge_add_one_self)
  have hi: "e \<le> 1 + 1 / 365 + (1 / 365)\<^sup>2"
    unfolding e_def by (rule exp_bound) simp_all
  have "Math_round (700 + 300 * e) = of_int 1001"
    by (rule Math_round_eqI) (use lo hi in \<open>simp_all add: power2_eq_square\<close>)
  then show ?thesis
    by (simp add: score_unfold createMockRepo_def normalizeStars_ceiling normalizeForks_ceiling r
        default_service_weights algebra_simps)
qed

section \<open>Recency\<close>

lemma score_seconds_ago:
  assumes "0 \<le> d" and "d \<le> 3600000"
  shows "calculatePopularityScore scoringService now (createMockRepo 0 0 (now - d)) = 3"
proof -
  define x :: real where "x = of_int d / 31536000000"
  define e :: real where "e = exp (- x)"
  have x: "0 \<le> x" "x \<le> 1 / 1000"
    using assms by (simp_all add: x_def)
  have r: "calculateRecencyScore scoringService now (now - d) = e"
    by (simp add: default_recency x_def e_def)
  have lo: "1 - x \<le> e"
    unfolding e_def using exp_ge_add_one_self [of "- x"] by simp
  have hi: "e \<le> 1"
    unfolding e_def using x by simp
  have "Math_round (300 * e) = of_int 300"
    by (rule Math_round_eqI) (use lo hi x in simp_all)
  then show ?thesis
    by (simp add: score_unfold createMockRepo_def normalizeStars_0 normalizeForks_0 r
        default_service_weights)
qed

text \<open>A record without stars or forks, updated at the instant read as now, scores 3.00
  under the default weights.\<close>

lemma fresh_record_score:
  "calculatePopularityScore scoringService now (createMockRepo 0 0 now) = 3"
  using score_seconds_ago [of 0 now] by simp








section \<open>Stars and forks\<close>

text \<open>
  C3. For non-negative counts \<open>c1 < c2\<close>, every other field of the record and now being
  fixed, the score with \<open>c2\<close> stars is at least the score with \<open>c1\<close> stars, and
  likewise for forks (the weights being non-negative, as the configuration requires).
\<close>

theorem popularity_monotone_in_stars_and_forks:
  assumes "0 \<le> weight_stars (weights this)" and "0 \<le> weight_forks (weights this)"
    and "0 \<le> c1" and "c1 < c2"
  shows "calculatePopularityScore this now (repo\<lparr>stargazers_count := c1\<rparr>)
           \<le> calculatePopularityScore this now (repo\<lparr>stargazers_count := c2\<rparr>)
       \<and> calculatePopularityScore this now (repo\<lparr>forks_count := c1\<rparr>)
           \<le> calculatePopularityScore this now (repo\<lparr>forks_count := c2\<rparr>)"
proof
  have "normalizeStars c1 * weight_stars (weights this)
      \<le> normalizeStars c2 * weight_stars (weights this)"
    using assms normalizeStars_mono [of c1 c2] by (simp add: mult_right_mono)
  then show "calculatePopularityScore this now (repo\<lparr>stargazers_count := c1\<rparr>)
           \<le> calculatePopularityScore this now (repo\<lparr>stargazers_count := c2\<rparr>)"
    by (simp add: score_unfold divide_right_mono Math_round_mono)
next
  have "normalizeForks c1 * weight_forks (weights this)
      \<le> normalizeForks c2 * weight_forks (weights this)"
    using assms normalizeForks_mono [of c1 c2] by (simp add: mult_right_mono)
  then show "calculatePopularityScore this now (repo\<lparr>forks_count := c1\<rparr>)
           \<le> calculatePopularityScore this now (repo\<lparr>forks_count := c2\<rparr>)"
    by (simp add: score_unfold divide_right_mono Math_round_mono)
qed

theorem popularity_monotone_in_stars_and_forks_witness:
  "0 \<le> weight_stars (weights scoringService) \<and> 0 \<le> weight_forks (weights scoringService)
   \<and> (0::real) \<le> 1000 \<and> (1000::real) < 10000
   \<and> calculatePopularityScore scoringService 1704067200000
         ((createMockRepo 500 100 1704067200000)\<lparr>stargazers_count := 1000\<rparr>)
       \<le> calculatePopularityScore scoringService 1704067200000
         ((createMockRepo 500 100 1704067200000)\<lparr>stargazers_count := 10000\<rparr>)
   \<and> calculatePopularityScore scoringService 1704067200000
         ((createMockRepo 500 100 1704067200000)\<lparr>forks_count := 1000\<rparr>)
       \<le> calculatePopularityScore scoringService 1704067200000
         ((createMockRepo 500 100 1704067200000)\<lparr>forks_count := 10000\<rparr>)"
  using popularity_monotone_in_stars_and_forks
    [of scoringService 1000 10000 1704067200000 "createMockRepo 500 100 1704067200000"]
  by (simp add: default_service_weights)

section \<open>Sorting by score\<close>

text \<open>With the two comparators of \<open>sortByPopularityScore\<close>, the runtime's sort is the
  library's stable insertion sort, by the score or by the negated score.\<close>

lemma place_before_ascending:
  "place_before (\<lambda>a b. key a - key b) x ys = insort_key key x ys"
  by (induction ys) simp_all

lemma place_before_descending:
  "place_before (\<lambda>a b. key b - key a) x ys = insort_key (\<lambda>r. - key r) x ys"
  by (induction ys) simp_all

lemma Array_sort_ascending: "Array_sort (\<lambda>a b. key a - key b) xs = sort_key key xs"
  by (induction xs) (simp_all add: Array_sort_def place_before_ascending)

lemma Array_sort_descending:
  "Array_sort (\<lambda>a b. key b - key a) xs = sort_key (\<lambda>r. - key r) xs"
  by (induction xs) (simp_all add: Array_sort_def place_before_descending)

lemma sortByPopularityScore_asc:
  "sortByPopularityScore repos (Some asc) = sort_key popularity_score repos"
  by (simp add: sortByPopularityScore_def Array_sort_ascending)

lemma sortByPopularityScore_desc:
  "sortByPopularityScore repos (Some desc) = sort_key (\<lambda>r. - popularity_score r) repos"
  by (simp add: sortByPopularityScore_def Array_sort_descending)

lemma sortByPopularityScore_default:
  "sortByPopularityScore repos None = sortByPopularityScore repos (Some desc)"
  by (simp add: sortByPopularityScore_def)

lemma sortByPopularityScore_cases:
  "sortByPopularityScore repos order_arg = sort_key popularity_score repos
   \<or> sortByPopularityScore repos order_arg = sort_key (\<lambda>r. - popularity_score r) repos"
proof (cases order_arg)
  case None
  then show ?thesis
    by (simp add: sortByPopularityScore_default sortByPopularityScore_desc)
next
  case (Some v)
  then show ?thesis
    by (cases v) (simp_all add: sortByPopularityScore_asc sortByPopularityScore_desc)
qed

lemma sort_key_negated_stable:
  "filter (\<lambda>r. key r = (v::real)) (sort_key (\<lambda>r. - key r) xs) = filter (\<lambda>r. key r = v) xs"
  using sort_key_stable [of "\<lambda>r. - key r" "- v" xs] by simp

lemma sortByPopularityScore_stable:
  "filter (\<lambda>r. popularity_score r = v) (sortByPopularityScore repos order_arg)
     = filter (\<lambda>r. popularity_score r = v) repos"
  using sortByPopularityScore_cases [of repos order_arg]
  by (auto simp: sort_key_stable sort_key_negated_stable)

lemma sortByPopularityScore_desc_sorted:
  "sorted_wrt (\<lambda>a b. popularity_score a \<ge> popularity_score b)
     (sortByPopularityScore repos (Some desc))"
  using sorted_sort_key [of "\<lambda>r. - popularity_score r" repos]
  by (simp add: sortByPopularityScore_desc sorted_map)

lemma sortByPopularityScore_asc_sorted:
  "sorted_wrt (\<lambda>a b. popularity_score a \<le> popularity_score b)
     (sortByPopularityScore repos (Some asc))"
  using sorted_sort_key [of popularity_score repos]
  by (simp add: sortByPopularityScore_asc sorted_map)

lemma sortByPopularityScore_idem:
  "sortByPopularityScore (sortByPopularityScore repos order_arg) order_arg
     = sortByPopularityScore repos order_arg"
proof (cases "case order_arg of None \<Rightarrow> desc | Some v \<Rightarrow> v")
  case asc
  then have "order_arg = Some asc"
    by (auto split: option.splits)
  then show ?thesis
    by (simp add: sortByPopularityScore_asc sort_key_id_if_sorted)
next
  case desc
  then have "sortByPopularityScore xs order_arg = sort_key (\<lambda>r. - popularity_score r) xs" for xs
    by (cases order_arg) (simp_all add: sortByPopularityScore_default sortByPopularityScore_desc)
  then show ?thesis
    by (simp add: sort_key_id_if_sorted)
qed

lemma sortByPopularityScore_mset:
  "mset (sortByPopularityScore repos order_arg) = mset repos"
  using sortByPopularityScore_cases [of repos order_arg] by auto

lemma sortByPopularityScore_in_store_result:
  "repos < length h \<Longrightarrow>
   sortByPopularityScore_in_store repos order_arg h
     = Some (length h, h @ [sortByPopularityScore (h ! repos) order_arg])"
  by (simp add: sortByPopularityScore_in_store_def spread_copy_def sort_in_place_def
      sortByPopularityScore_def Let_def)

text \<open>Records of equal score keep the order of the input, in both directions.\<close>

lemma stable_example:
  "map rs_stars (sortByPopularityScore
      [createMockRepoWithScore 1 0 5, createMockRepoWithScore 2 0 7,
       createMockRepoWithScore 3 0 5, createMockRepoWithScore 4 0 7] (Some desc)) = [2, 4, 1, 3]
   \<and> map rs_stars (sortByPopularityScore
      [createMockRepoWithScore 1 0 5, createMockRepoWithScore 2 0 7,
       createMockRepoWithScore 3 0 5, createMockRepoWithScore 4 0 7] (Some asc)) = [1, 3, 2, 4]"
  by (simp add: sortByPopularityScore_def Array_sort_def createMockRepoWithScore_def)

text \<open>
  C8. The result of \<open>sortByPopularityScore\<close> is ordered by score, descending for \<open>desc\<close>
  and when the order is absent, ascending for \<open>asc\<close>; the sort is stable: for every
  score, the records with that score stand in the result in the order they had in the
  input. Scores 4.0, 7.5, 5.5 come out as 7.5, 5.5, 4.0 for \<open>desc\<close> and as 4.0, 5.5, 7.5
  for \<open>asc\<close>.
\<close>

theorem sort_by_popularity_ordered_and_stable:
  "sorted_wrt (\<lambda>a b. popularity_score a \<ge> popularity_score b)
     (sortByPopularityScore repos (Some desc))
   \<and> sorted_wrt (\<lambda>a b. popularity_score a \<le> popularity_score b)
     (sortByPopularityScore repos (Some asc))
   \<and> sortByPopularityScore repos None = sortByPopularityScore repos (Some desc)
   \<and> filter (\<lambda>r. popularity_score r = v) (sortByPopularityScore repos order_arg)
       = filter (\<lambda>r. popularity_score r = v) repos
   \<and> map popularity_score (sortByPopularityScore
         [createMockRepoWithScore 500 50 4, createMockRepoWithScore 10000 1000 (75 / 10),
          createMockRepoWithScore 1000 100 (55 / 10)] (Some desc)) = [75 / 10, 55 / 10, 4]
   \<and> map popularity_score (sortByPopularityScore
         [createMockRepoWithScore 500 50 4, createMockRepoWithScore 10000 1000 (75 / 10),
          createMockRepoWithScore 1000 100 (55 / 10)] (Some asc)) = [4, 55 / 10, 75 / 10]"
proof -
  have "map popularity_score (sortByPopularityScore
         [createMockRepoWithScore 500 50 4, createMockRepoWithScore 10000 1000 (75 / 10),
          createMockRepoWithScore 1000 100 (55 / 10)] (Some desc)) = [75 / 10, 55 / 10, 4]"
    by (simp add: sortByPopularityScore_def Array_sort_def createMockRepoWithScore_def)
  moreover have "map popularity_score (sortByPopularityScore
         [createMockRepoWithScore 500 50 4, createMockRepoWithScore 10000 1000 (75 / 10),
          createMockRepoWithScore 1000 100 (55 / 10)] (Some asc)) = [4, 55 / 10, 75 / 10]"
    by (simp add: sortByPopularityScore_def Array_sort_def createMockRepoWithScore_def)
  ultimately show ?thesis
    using sortByPopularityScore_desc_sorted [of repos] sortByPopularityScore_asc_sorted [of repos]
      sortByPopularityScore_default [of repos] sortByPopularityScore_stable [of v repos order_arg]
    by (simp only: simp_thms)
qed

text \<open>
  C9. Sorting the result of \<open>sortByPopularityScore\<close> again, in the same order, gives the
  same sequence; and the call leaves its argument alone: on a store of arrays it
  returns a reference to a new array that holds the sorted sequence, every array of
  the store before the call, the argument among them, is as it was, and so it is after
  sorting the result once more.
\<close>

theorem sort_by_popularity_idempotent_and_non_mutating:
  assumes "repos < length h"
  shows "sortByPopularityScore (sortByPopularityScore xs order_arg) order_arg
           = sortByPopularityScore xs order_arg
       \<and> (\<exists>sorted_ref h'.
             sortByPopularityScore_in_store repos order_arg h = Some (sorted_ref, h')
             \<and> sorted_ref \<noteq> repos
             \<and> take (length h) h' = h
             \<and> h' ! repos = h ! repos
             \<and> h' ! sorted_ref = sortByPopularityScore (h ! repos) order_arg
             \<and> (\<exists>again h''.
                   sortByPopularityScore_in_store sorted_ref order_arg h' = Some (again, h'')
                   \<and> h'' ! again = h' ! sorted_ref
                   \<and> take (length h') h'' = h'
                   \<and> h'' ! repos = h ! repos))"
proof -
  define h' where "h' = h @ [sortByPopularityScore (h ! repos) order_arg]"
  define h'' where "h'' = h' @ [sortByPopularityScore (h' ! length h) order_arg]"
  have first: "sortByPopularityScore_in_store repos order_arg h = Some (length h, h')"
    using assms by (simp add: sortByPopularityScore_in_store_result h'_def)
  have "length h < length h'"
    by (simp add: h'_def)
  then have second: "sortByPopularityScore_in_store (length h) order_arg h' = Some (length h', h'')"
    by (simp add: sortByPopularityScore_in_store_result h''_def)
  have kept: "h' ! repos = h ! repos" "take (length h) h' = h"
    using assms by (simp_all add: h'_def nth_append)
  have sorted: "h' ! length h = sortByPopularityScore (h ! repos) order_arg"
    by (simp add: h'_def)
  have again: "h'' ! length h' = h' ! length h"
    by (simp add: h''_def sorted sortByPopularityScore_idem)
  have kept2: "take (length h') h'' = h'" "h'' ! repos = h ! repos"
    using assms by (simp_all add: h''_def h'_def nth_append)
  have "length h \<noteq> repos"
    using assms by simp
  with first second kept sorted again kept2 sortByPopularityScore_idem [of xs order_arg]
  show ?thesis by blast
qed

theorem sort_by_popularity_idempotent_and_non_mutating_witness:
  "(0::nat) < length [[createMockRepoWithScore 500 50 4, createMockRepoWithScore 10000 1000 (75 / 10)]]
   \<and> (sortByPopularityScore
         (sortByPopularityScore
            [createMockRepoWithScore 500 50 4, createMockRepoWithScore 10000 1000 (75 / 10)]
            (Some desc)) (Some desc)
       = sortByPopularityScore
            [createMockRepoWithScore 500 50 4, createMockRepoWithScore 10000 1000 (75 / 10)]
            (Some desc)
      \<and> (\<exists>sorted_ref h'.
            sortByPopularityScore_in_store 0 (Some desc)
              [[createMockRepoWithScore 500 50 4, createMockRepoWithScore 10000 1000 (75 / 10)]]
              = Some (sorted_ref, h')
            \<and> sorted_ref \<noteq> 0
            \<and> take (length [[createMockRepoWithScore 500 50 4,
                               createMockRepoWithScore 10000 1000 (75 / 10)]]) h'
                = [[createMockRepoWithScore 500 50 4, createMockRepoWithScore 10000 1000 (75 / 10)]]
            \<and> h' ! 0
                = [[createMockRepoWithScore 500 50 4, createMockRepoWithScore 10000 1000 (75 / 10)]] ! 0
            \<and> h' ! sorted_ref
                = sortByPopularityScore
                    ([[createMockRepoWithScore 500 50 4,
                       createMockRepoWithScore 10000 1000 (75 / 10)]] ! 0) (Some desc)
            \<and> (\<exists>again h''.
                  sortByPopularityScore_in_store sorted_ref (Some desc) h' = Some (again, h'')
                  \<and> h'' ! again = h' ! sorted_ref
                  \<and> take (length h') h'' = h'
                  \<and> h'' ! 0
                      = [[createMockRepoWithScore 500 50 4,
                          createMockRepoWithScore 10000 1000 (75 / 10)]] ! 0)))
   \<and> sortByPopularityScore_in_store 0 (Some desc)
        [[createMockRepoWithScore 500 50 4, createMockRepoWithScore 10000 1000 (75 / 10)]]
      = Some (1, [[createMockRepoWithScore 500 50 4, createMockRepoWithScore 10000 1000 (75 / 10)],
                  [createMockRepoWithScore 10000 1000 (75 / 10), createMockRepoWithScore 500 50 4]])"
proof -
  have run: "sortByPopularityScore_in_store 0 (Some desc)
        [[createMockRepoWithScore 500 50 4, createMockRepoWithScore 10000 1000 (75 / 10)]]
      = Some (1, [[createMockRepoWithScore 500 50 4, createMockRepoWithScore 10000 1000 (75 / 10)],
                  [createMockRepoWithScore 10000 1000 (75 / 10), createMockRepoWithScore 500 50 4]])"
    by (simp add: sortByPopularityScore_in_store_def spread_copy_def sort_in_place_def
        Array_sort_def createMockRepoWithScore_def)
  have stored: "(0::nat) < length [[createMockRepoWithScore 500 50 4,
                                    createMockRepoWithScore 10000 1000 (75 / 10)]]"
    by simp
  note instance_at_store = sort_by_popularity_idempotent_and_non_mutating [OF stored,
      of "[createMockRepoWithScore 500 50 4, createMockRepoWithScore 10000 1000 (75 / 10)]"
         "Some desc"]
  show ?thesis
    by (rule conjI [OF stored conjI [OF instance_at_store run]])
qed

text \<open>
  C10. The result of \<open>sortByPopularityScore\<close> is a permutation of its input: the same
  records with the same multiplicities, hence the same length and the same elements.
\<close>

theorem sort_by_popularity_permutes:
  "mset (sortByPopularityScore repos order_arg) = mset repos
   \<and> length (sortByPopularityScore repos order_arg) = length repos
   \<and> set (sortByPopularityScore repos order_arg) = set repos"
proof -
  have m: "mset (sortByPopularityScore repos order_arg) = mset repos"
    by (rule sortByPopularityScore_mset)
  from m have "length (sortByPopularityScore repos order_arg) = length repos"
    by (rule mset_eq_length)
  moreover from m have "set (sortByPopularityScore repos order_arg) = set repos"
    by (rule mset_eq_setD)
  ultimately show ?thesis using m by simp
qed

section \<open>Sanitizing\<close>

lemma replace_by_nothing:
  "String_replace_global matches [] s = filter (\<lambda>c. \<not> matches c) s"
  by (induction s) simp_all

lemma sanitize_pattern_allow_set:
  "negated_class_matches sanitize_pattern c = (\<not> spec_allow_set c)"
  by (simp add: negated_class_matches_def sanitize_pattern_def spec_allow_set_def
      is_ascii_letter_def is_ascii_digit_def)

lemma sanitizeInput_filter: "sanitizeInput raw = filter spec_allow_set raw"
  by (simp add: sanitizeInput_def js_def replace_by_nothing sanitize_pattern_allow_set)

lemma language_example:
  "buildQueryString Date_parse (no_filters\<lparr>language := Some (js ''type<script>!'')\<rparr>)
     = Inr (js ''language:typescript'')"
  by (simp add: buildQueryString_def no_filters_def sanitizeInput_def js_def unit_of_def
      sanitize_pattern_def negated_class_matches_def is_js_whitespace_def)

text \<open>
  C7. \<open>sanitizeInput\<close> returns its input without the code units outside the allow-set
  (ASCII letters, ASCII digits, white space, hyphen, underscore, plus, hash, period),
  whatever the input, as a plain value; with the language filter \<open>type<script>!\<close> and
  no other filter, whatever the date parser, the query is \<open>language:typescript\<close>.
\<close>

theorem sanitize_strips_outside_allow_set:
  "sanitizeInput raw = spec_sanitize raw
   \<and> buildQueryString Date_parse (no_filters\<lparr>language := Some (js ''type<script>!'')\<rparr>)
       = Inr (js ''language:typescript'')"
  using sanitizeInput_filter [of raw] language_example [of Date_parse]
  by (simp add: spec_sanitize_def)

section \<open>The date portion of the ISO rendering\<close>

lemma digit_unit_range: "\<exists>k < 10. digit_unit n = of_nat (48 + k)"
proof -
  have "nat (n mod 10) < 10" by simp
  then show ?thesis unfolding digit_unit_def by blast
qed

lemma small_is_digit:
  assumes "k < 10"
  shows "is_ascii_digit (of_nat (48 + k))"
    and "(of_nat (48 + k) :: code_unit) \<noteq> unit_of CHR ''T''"
proof -
  have "unat (of_nat (48 + k) :: code_unit) = (48 + k) mod 2 ^ 16"
    using unat_of_nat [where 'a = 16, of "48 + k"] by simp
  then have u: "unat (of_nat (48 + k) :: code_unit) = 48 + k"
    using assms by simp
  have z: "unat (unit_of CHR ''0'') = 48" and n: "unat (unit_of CHR ''9'') = 57"
    and t: "unat (unit_of CHR ''T'') = 84"
    by (simp_all add: unit_of_def)
  show "is_ascii_digit (of_nat (48 + k))"
    unfolding is_ascii_digit_def word_le_nat_alt u z n using assms by simp
  show "(of_nat (48 + k) :: code_unit) \<noteq> unit_of CHR ''T''"
  proof
    assume "(of_nat (48 + k) :: code_unit) = unit_of CHR ''T''"
    then have "unat (of_nat (48 + k) :: code_unit) = unat (unit_of CHR ''T'')"
      by (rule arg_cong)
    then show False unfolding u t using assms by simp
  qed
qed

lemma digit_unit_is_digit: "is_ascii_digit (digit_unit n)"
proof -
  obtain k where k: "k < 10" and eq: "digit_unit n = of_nat (48 + k)"
    using digit_unit_range [of n] by blast
  show ?thesis unfolding eq by (rule small_is_digit(1) [OF k])
qed

lemma digit_unit_not_T: "digit_unit n \<noteq> unit_of CHR ''T''"
proof -
  obtain k where k: "k < 10" and eq: "digit_unit n = of_nat (48 + k)"
    using digit_unit_range [of n] by blast
  show ?thesis unfolding eq by (rule small_is_digit(2) [OF k])
qed

lemma sign_not_T:
  "unit_of CHR ''-'' \<noteq> unit_of CHR ''T''" "unit_of CHR ''+'' \<noteq> unit_of CHR ''T''"
  by (simp_all add: unit_of_def)

lemma formattedDate:
  "split_first (unit_of CHR ''T'') (toISOString t)
     = year_string (YearFromTime t) @ js ''-'' @ digits2 (MonthFromTime t + 1) @ js ''-''
       @ digits2 (DateFromTime t)"
proof -
  have y: "\<forall>c \<in> set (year_string (YearFromTime t)). c \<noteq> unit_of CHR ''T''"
    by (simp add: year_string_def digits4_def digits6_def js_def digit_unit_not_T sign_not_T)
  have d: "\<forall>c \<in> set (digits2 n). c \<noteq> unit_of CHR ''T''" for n
    by (simp add: digits2_def digit_unit_not_T)
  show ?thesis
    unfolding split_first_def toISOString_def
    using y d by (simp add: takeWhile_append2 js_def sign_not_T)
qed

lemma formattedDate_four_digit_year:
  assumes "0 \<le> YearFromTime t" and "YearFromTime t \<le> 9999"
  shows "is_ymd_form (split_first (unit_of CHR ''T'') (toISOString t))"
  using assms
  by (simp add: formattedDate is_ymd_form_def year_string_def digits4_def digits2_def js_def
      digit_unit_is_digit)

lemma formattedDate_expanded_year:
  assumes "YearFromTime t < 0 \<or> 9999 < YearFromTime t"
  shows "\<not> is_ymd_form (split_first (unit_of CHR ''T'') (toISOString t))"
proof -
  have "length (year_string (YearFromTime t)) = 7"
    using assms by (auto simp: year_string_def digits6_def js_def)
  then have "length (split_first (unit_of CHR ''T'') (toISOString t)) = 13"
    by (simp add: formattedDate digits2_def js_def)
  then show ?thesis by (simp add: is_ymd_form_def)
qed

lemma formattedDate_form_iff:
  "is_ymd_form (split_first (unit_of CHR ''T'') (toISOString t))
     \<longleftrightarrow> 0 \<le> YearFromTime t \<and> YearFromTime t \<le> 9999"
  using formattedDate_four_digit_year [of t] formattedDate_expanded_year [of t]
  by (cases "0 \<le> YearFromTime t \<and> YearFromTime t \<le> 9999") auto

section \<open>The clauses of the query\<close>

lemma buildQueryString_clauses:
  "buildQueryString Date_parse query =
     (if createdAfter_rejected Date_parse query then Inl (ValidationError createdAfter_message)
      else Inr (Array_join (spec_clauses Date_parse query) (js '' '')))"
  by (simp add: buildQueryString_def createdAfter_rejected_def createdAfter_message_def
      spec_clauses_def spec_language_clause_def spec_date_clause_def spec_default_clause_def
      Let_def split: option.split)

lemma Array_join_nonempty:
  "parts \<noteq> [] \<Longrightarrow> hd parts \<noteq> [] \<Longrightarrow> Array_join parts separator \<noteq> []"
  by (cases parts) (simp_all split: list.split)

lemma spec_clauses_nonempty: "spec_clauses Date_parse query \<noteq> []"
  by (simp add: spec_clauses_def spec_default_clause_def)

lemma spec_clauses_hd: "hd (spec_clauses Date_parse query) \<noteq> []"
  by (simp add: spec_clauses_def spec_default_clause_def spec_language_clause_def
      spec_date_clause_def js_def split: option.split)

lemma no_filters_query: "buildQueryString Date_parse no_filters = Inr (js ''stars:>0'')"
  by (simp add: buildQueryString_def no_filters_def)

lemma parse_2024: "new_Date Date_parse_date_only (js ''2024-01-01'') = Some 1704067200000"
  by code_simp

lemma parse_not_a_date: "new_Date Date_parse_date_only (js ''not-a-date'') = None"
  by code_simp

lemma parse_10000: "new_Date Date_parse_date_only (js ''+010000-01-01'') = Some 253402300800000"
  by code_simp

lemma iso_2024: "split_first (unit_of CHR ''T'') (toISOString 1704067200000) = js ''2024-01-01''"
  by code_simp

lemma year_2024: "YearFromTime 1704067200000 = 2024"
  by code_simp

lemma date_example:
  "buildQueryString Date_parse_date_only (no_filters\<lparr>createdAfter := Some (js ''2024-01-01'')\<rparr>)
     = Inr (js ''created:>=2024-01-01'')"
  by code_simp

lemma bad_date_example:
  "buildQueryString Date_parse_date_only (no_filters\<lparr>createdAfter := Some (js ''not-a-date'')\<rparr>)
     = Inl (ValidationError createdAfter_message)"
  by code_simp

lemma expanded_year_example:
  "buildQueryString Date_parse_date_only
     (no_filters\<lparr>createdAfter := Some (js ''+010000-01-01'')\<rparr>)
     = Inr (js ''created:>=+010000-01-01'')"
  by code_simp

lemma both_filters_example:
  "buildQueryString Date_parse_date_only
     (no_filters\<lparr>language := Some (js ''typescript''), createdAfter := Some (js ''2024-01-01'')\<rparr>)
     = Inr (js ''language:typescript created:>=2024-01-01'')"
  by code_simp

lemma searchRepositories_rejected:
  "createdAfter_rejected Date_parse query \<Longrightarrow>
   searchRepositories Date_parse client_get scoring now query sent
     = (Inl (ValidationError createdAfter_message), sent)"
  by (simp add: searchRepositories_def buildQueryString_clauses)

text \<open>
  C5. For every request, \<open>buildQueryString\<close> fails only on a creation-date floor that is
  set and is no date; otherwise it returns the clauses joined by single spaces, in the
  fixed order: the language clause if a language is set (present and not empty), then
  the date clause if a date is set, and the one default clause \<open>stars:>0\<close> when neither
  produced a clause. The clause sequence and the query are never empty, and the request
  without filters gives \<open>stars:>0\<close>.
\<close>

theorem build_query_clauses_in_order:
  "buildQueryString Date_parse query =
     (if createdAfter_rejected Date_parse query then Inl (ValidationError createdAfter_message)
      else Inr (Array_join
             (spec_language_clause query @ spec_date_clause Date_parse query
              @ spec_default_clause (spec_language_clause query @ spec_date_clause Date_parse query))
             (js '' '')))
   \<and> spec_language_clause query @ spec_date_clause Date_parse query
       @ spec_default_clause (spec_language_clause query @ spec_date_clause Date_parse query) \<noteq> []
   \<and> Array_join
         (spec_language_clause query @ spec_date_clause Date_parse query
          @ spec_default_clause (spec_language_clause query @ spec_date_clause Date_parse query))
         (js '' '') \<noteq> []
   \<and> buildQueryString Date_parse no_filters = Inr (js ''stars:>0'')
   \<and> buildQueryString Date_parse_date_only
         (no_filters\<lparr>language := Some (js ''typescript''),
                     createdAfter := Some (js ''2024-01-01'')\<rparr>)
       = Inr (js ''language:typescript created:>=2024-01-01'')"
proof -
  have joined: "Array_join (spec_clauses Date_parse query) (js '' '') \<noteq> []"
    by (rule Array_join_nonempty [OF spec_clauses_nonempty spec_clauses_hd])
  show ?thesis
    using buildQueryString_clauses [of Date_parse query] spec_clauses_nonempty [of Date_parse query]
      joined no_filters_query [of Date_parse] both_filters_example
    unfolding spec_clauses_def by (simp only: simp_thms)
qed

text \<open>
  C6, as stated, fails: the creation-date floor \<open>+010000-01-01\<close>, the first day of the
  year 10000 in the six-digit year form of the ECMAScript date format, is a date, and
  the clause built from it is \<open>created:>=+010000-01-01\<close>, whose date is not of the form
  \<open>YYYY-MM-DD\<close>.
\<close>

theorem created_clause_form_counterexample:
  "new_Date Date_parse_date_only (js ''+010000-01-01'') = Some 253402300800000
   \<and> buildQueryString Date_parse_date_only
         (no_filters\<lparr>createdAfter := Some (js ''+010000-01-01'')\<rparr>)
       = Inr (js ''created:>=+010000-01-01'')
   \<and> \<not> is_ymd_form (js ''+010000-01-01'')"
  using parse_10000 expanded_year_example
  by (simp add: is_ymd_form_def js_def)

text \<open>
  C6, amended. For every request whose creation-date floor is set (present and not
  empty): if the value is no date, \<open>buildQueryString\<close> fails with the
  \<open>ValidationError\<close> whose message names the expected format, and \<open>searchRepositories\<close>
  fails with it without issuing a request; if the value is a date, the query ends
  with the clause \<open>created:>=\<close> followed by the date portion of the date's ISO
  rendering, which is year, month and day of the date in UTC and has the form
  \<open>YYYY-MM-DD\<close> exactly when the year lies between 0 and 9999 (another year is written
  with a sign and six digits). The floor \<open>2024-01-01\<close> gives \<open>created:>=2024-01-01\<close>,
  and \<open>not-a-date\<close> fails.
\<close>

theorem created_after_checked_then_normalized:
  assumes "createdAfter query = Some c" and "c \<noteq> []"
  shows "(new_Date Date_parse c = None \<longrightarrow>
            buildQueryString Date_parse query = Inl (ValidationError createdAfter_message)
            \<and> searchRepositories Date_parse client_get scoring now query sent
                = (Inl (ValidationError createdAfter_message), sent))
       \<and> (\<forall>t. new_Date Date_parse c = Some t \<longrightarrow>
            buildQueryString Date_parse query
              = Inr (Array_join
                  (spec_language_clause query
                   @ [js ''created:>='' @ split_first (unit_of CHR ''T'') (toISOString t)])
                  (js '' ''))
            \<and> split_first (unit_of CHR ''T'') (toISOString t)
                = year_string (YearFromTime t) @ js ''-'' @ digits2 (MonthFromTime t + 1)
                  @ js ''-'' @ digits2 (DateFromTime t)
            \<and> (is_ymd_form (split_first (unit_of CHR ''T'') (toISOString t))
                 \<longleftrightarrow> 0 \<le> YearFromTime t \<and> YearFromTime t \<le> 9999))
       \<and> buildQueryString Date_parse_date_only
            (no_filters\<lparr>createdAfter := Some (js ''2024-01-01'')\<rparr>)
           = Inr (js ''created:>=2024-01-01'')
       \<and> buildQueryString Date_parse_date_only
            (no_filters\<lparr>createdAfter := Some (js ''not-a-date'')\<rparr>)
           = Inl (ValidationError createdAfter_message)"
proof (intro conjI impI allI)
  assume none: "new_Date Date_parse c = None"
  then have rejected: "createdAfter_rejected Date_parse query"
    using assms by (simp add: createdAfter_rejected_def)
  then show "buildQueryString Date_parse query = Inl (ValidationError createdAfter_message)"
    by (simp add: buildQueryString_clauses)
  from rejected show "searchRepositories Date_parse client_get scoring now query sent
                = (Inl (ValidationError createdAfter_message), sent)"
    by (rule searchRepositories_rejected)
next
  fix t
  assume some: "new_Date Date_parse c = Some t"
  then have accepted: "\<not> createdAfter_rejected Date_parse query"
    using assms by (simp add: createdAfter_rejected_def)
  have clause: "spec_date_clause Date_parse query
      = [js ''created:>='' @ split_first (unit_of CHR ''T'') (toISOString t)]"
    using assms some by (simp add: spec_date_clause_def)
  show "buildQueryString Date_parse query
      = Inr (Array_join
          (spec_language_clause query
           @ [js ''created:>='' @ split_first (unit_of CHR ''T'') (toISOString t)])
          (js '' ''))"
    using accepted
    by (simp add: buildQueryString_clauses spec_clauses_def clause spec_default_clause_def)
next
  fix t
  show "split_first (unit_of CHR ''T'') (toISOString t)
      = year_string (YearFromTime t) @ js ''-'' @ digits2 (MonthFromTime t + 1)
        @ js ''-'' @ digits2 (DateFromTime t)"
    by (rule formattedDate)
next
  fix t
  show "is_ymd_form (split_first (unit_of CHR ''T'') (toISOString t))
      \<longleftrightarrow> 0 \<le> YearFromTime t \<and> YearFromTime t \<le> 9999"
    by (rule formattedDate_form_iff)
next
  show "buildQueryString Date_parse_date_only
            (no_filters\<lparr>createdAfter := Some (js ''2024-01-01'')\<rparr>)
           = Inr (js ''created:>=2024-01-01'')"
    by (rule date_example)
next
  show "buildQueryString Date_parse_date_only
            (no_filters\<lparr>createdAfter := Some (js ''not-a-date'')\<rparr>)
           = Inl (ValidationError createdAfter_message)"
    by (rule bad_date_example)
qed

theorem created_after_checked_then_normalized_witness:
  "createdAfter (no_filters\<lparr>createdAfter := Some (js ''not-a-date'')\<rparr>) = Some (js ''not-a-date'')
   \<and> js ''not-a-date'' \<noteq> []
   \<and> new_Date Date_parse_date_only (js ''not-a-date'') = None
   \<and> buildQueryString Date_parse_date_only (no_filters\<lparr>createdAfter := Some (js ''not-a-date'')\<rparr>)
       = Inl (ValidationError createdAfter_message)
   \<and> searchRepositories Date_parse_date_only
         (\<lambda>params. Inl (GitHubAPIError (js ''An unexpected error occurred'') 500))
         scoringService 1704067200000
         (no_filters\<lparr>createdAfter := Some (js ''not-a-date'')\<rparr>) []
       = (Inl (ValidationError createdAfter_message), [])
   \<and> createdAfter (no_filters\<lparr>createdAfter := Some (js ''2024-01-01'')\<rparr>) = Some (js ''2024-01-01'')
   \<and> js ''2024-01-01'' \<noteq> []
   \<and> new_Date Date_parse_date_only (js ''2024-01-01'') = Some 1704067200000
   \<and> YearFromTime 1704067200000 = 2024
   \<and> buildQueryString Date_parse_date_only (no_filters\<lparr>createdAfter := Some (js ''2024-01-01'')\<rparr>)
       = Inr (js ''created:>=2024-01-01'')
   \<and> split_first (unit_of CHR ''T'') (toISOString 1704067200000) = js ''2024-01-01''
   \<and> is_ymd_form (split_first (unit_of CHR ''T'') (toISOString 1704067200000))"
proof -
  have bad_set: "createdAfter (no_filters\<lparr>createdAfter := Some (js ''not-a-date'')\<rparr>)
      = Some (js ''not-a-date'')"
    by simp
  have bad_truthy: "js ''not-a-date'' \<noteq> []"
    by (simp add: js_def)
  note bad = created_after_checked_then_normalized [OF bad_set bad_truthy,
      where Date_parse = Date_parse_date_only
        and client_get = "\<lambda>params. Inl (GitHubAPIError (js ''An unexpected error occurred'') 500)"
        and scoring = scoringService and now = 1704067200000 and sent = "[]"]
  have good_set: "createdAfter (no_filters\<lparr>createdAfter := Some (js ''2024-01-01'')\<rparr>)
      = Some (js ''2024-01-01'')"
    by simp
  have good_truthy: "js ''2024-01-01'' \<noteq> []"
    by (simp add: js_def)
  note good = created_after_checked_then_normalized [OF good_set good_truthy,
      where Date_parse = Date_parse_date_only]
  have failing: "buildQueryString Date_parse_date_only
        (no_filters\<lparr>createdAfter := Some (js ''not-a-date'')\<rparr>)
      = Inl (ValidationError createdAfter_message)
    \<and> searchRepositories Date_parse_date_only
         (\<lambda>params. Inl (GitHubAPIError (js ''An unexpected error occurred'') 500))
         scoringService 1704067200000
         (no_filters\<lparr>createdAfter := Some (js ''not-a-date'')\<rparr>) []
       = (Inl (ValidationError createdAfter_message), [])"
    using bad parse_not_a_date by blast
  from good have "\<forall>t. new_Date Date_parse_date_only (js ''2024-01-01'') = Some t \<longrightarrow>
      (is_ymd_form (split_first (unit_of CHR ''T'') (toISOString t))
         \<longleftrightarrow> 0 \<le> YearFromTime t \<and> YearFromTime t \<le> 9999)"
    by blast
  with parse_2024 have "is_ymd_form (split_first (unit_of CHR ''T'') (toISOString 1704067200000))
      \<longleftrightarrow> 0 \<le> YearFromTime 1704067200000 \<and> YearFromTime 1704067200000 \<le> 9999"
    by blast
  then have form: "is_ymd_form (split_first (unit_of CHR ''T'') (toISOString 1704067200000))"
    by (simp add: year_2024)
  have query: "buildQueryString Date_parse_date_only
        (no_filters\<lparr>createdAfter := Some (js ''2024-01-01'')\<rparr>)
      = Inr (js ''created:>=2024-01-01'')"
    using good by blast
  show ?thesis
    using bad_set bad_truthy parse_not_a_date failing good_set good_truthy parse_2024 year_2024
      query iso_2024 form
    by (simp only: simp_thms)
qed

end
